theory Spec2Isabelle
  imports Main "HOL-Library.Sublist"
begin

section \<open>The Contact table and the store\<close>

text \<open>
  A row of table \<open>Contact\<close>. The source's field \<open>id\<close> is \<open>id_c\<close> here (\<open>id\<close> is
  the identity function of HOL). A nullable column is an \<open>option\<close>, a timestamp is its
  number of milliseconds (\<open>getTime()\<close>).
\<close>

datatype precedence = Primary | Secondary

record contact =
  id_c :: nat
  email :: "string option"
  phoneNumber :: "string option"
  linkedId :: "nat option"
  linkPrecedence :: precedence
  createdAt :: nat
  updatedAt :: nat
  deletedAt :: "nat option"

text \<open>
  The store behind \<open>pool\<close>: the rows of the table in table order, the next value of the
  id sequence, and what the service cannot control: the time the store's clock shows at
  its n-th statement, and the statements at which the store reports an error. \<open>issued\<close>
  counts the statements sent so far, so a run that leaves it unchanged has not touched
  the store.
\<close>

record store =
  rows :: "contact list"
  nextId :: nat
  clock :: "nat \<Rightarrow> nat"
  issued :: nat
  faults :: "nat set"

datatype error = ValidationError | TypeError | StoreError

type_synonym 'a io = "store \<Rightarrow> store \<times> (error + 'a)"

text \<open>\<open>await\<close> followed by the rest of the function: a rejection ends the function.\<close>

definition andThen :: "'a io \<Rightarrow> ('a \<Rightarrow> 'b io) \<Rightarrow> 'b io" where
  "andThen m k s = (case m s of (s', Inl e) \<Rightarrow> (s', Inl e) | (s', Inr x) \<Rightarrow> k x s')"

definition finish :: "error + 'a \<Rightarrow> 'a io" where
  "finish r s = (s, r)"

definition failing :: "store \<Rightarrow> bool" where
  "failing s = (issued s \<in> faults s)"

definition tick :: "store \<Rightarrow> store" where
  "tick s = s\<lparr>issued := Suc (issued s)\<rparr>"

definition now :: "store \<Rightarrow> nat" where
  "now s = clock s (issued s)"

text \<open>\<open>SELECT * FROM Contact WHERE ... ORDER BY createdAt ASC\<close>. Rows of equal \<open>createdAt\<close>
  come back in table order (the store promises no order among them; the model fixes this
  one).\<close>

definition selectOrderByCreatedAt :: "(contact \<Rightarrow> bool) \<Rightarrow> contact list io" where
  "selectOrderByCreatedAt wh s =
     (if failing s then (tick s, Inl StoreError)
      else (tick s, Inr (sort_key createdAt (filter wh (rows s)))))"

text \<open>\<open>INSERT INTO Contact (phoneNumber, email, linkedId, linkPrecedence, createdAt, updatedAt)
  VALUES (..., CURRENT_TIMESTAMP, CURRENT_TIMESTAMP) RETURNING *\<close>: the store assigns the id.\<close>

definition freshRow ::
  "nat \<Rightarrow> string option \<Rightarrow> string option \<Rightarrow> nat option \<Rightarrow> precedence \<Rightarrow> nat \<Rightarrow> contact" where
  "freshRow i mail phone linked prec t =
     \<lparr>id_c = i, email = mail, phoneNumber = phone, linkedId = linked, linkPrecedence = prec,
      createdAt = t, updatedAt = t, deletedAt = None\<rparr>"

definition insertReturning ::
  "string option \<Rightarrow> string option \<Rightarrow> nat option \<Rightarrow> precedence \<Rightarrow> contact list io" where
  "insertReturning phone mail linked prec s =
     (if failing s then (tick s, Inl StoreError)
      else
        (let row = freshRow (nextId s) mail phone linked prec (now s)
         in (tick (s\<lparr>rows := rows s @ [row], nextId := Suc (nextId s)\<rparr>), Inr [row])))"

text \<open>\<open>UPDATE Contact SET ... WHERE ...\<close>.\<close>

definition updateWhere :: "(contact \<Rightarrow> bool) \<Rightarrow> (contact \<Rightarrow> contact) \<Rightarrow> unit io" where
  "updateWhere wh upd s =
     (if failing s then (tick s, Inl StoreError)
      else (tick (s\<lparr>rows := map (\<lambda>c. if wh c then upd c else c) (rows s)\<rparr>), Inr ()))"

text \<open>\<open>pool.connect()\<close>, \<open>BEGIN\<close>, \<open>COMMIT\<close>, \<open>ROLLBACK\<close>: no row is read or written.\<close>

definition command :: "unit io" where
  "command s = (if failing s then (tick s, Inl StoreError) else (tick s, Inr ()))"

section \<open>JavaScript values\<close>

text \<open>A request field is absent (\<open>None\<close>) or a string. \<open>!v\<close> holds of an absent field and
  of the empty string; \<open>v || null\<close> keeps a non-empty string only.\<close>

definition truthy :: "string option \<Rightarrow> bool" where
  "truthy v = (v \<noteq> None \<and> v \<noteq> Some [])"

definition orNull :: "string option \<Rightarrow> string option" where
  "orNull v = (if truthy v then v else None)"

text \<open>A \<open>Set\<close> keeps its values in the order of their first insertion.\<close>

definition setAdd :: "'a list \<Rightarrow> 'a \<Rightarrow> 'a list" where
  "setAdd vs v = (if v \<in> set vs then vs else vs @ [v])"

definition newSet :: "'a list \<Rightarrow> 'a list" where
  "newSet vs = foldl setAdd [] vs"

text \<open>\<open>.filter(Boolean)\<close> on a list of strings and nulls.\<close>

fun filterBoolean :: "string option list \<Rightarrow> string list" where
  "filterBoolean [] = []"
| "filterBoolean (None # vs) = filterBoolean vs"
| "filterBoolean (Some v # vs) = (if v = [] then filterBoolean vs else v # filterBoolean vs)"

text \<open>
  An element of the in-memory list \<open>allLinkedContacts\<close>: a row, or the whole array
  \<open>result.rows\<close> that \<open>createSecondaryContact\<close> returns and \<open>identify\<close> pushes. On the array
  \<open>linkPrecedence\<close>, \<open>id\<close> and \<open>linkedId\<close> are \<open>undefined\<close>.
\<close>

datatype item = Row contact | Rows "contact list"

text \<open>The key of a group: a number, \<open>null\<close> (a row without \<open>linkedId\<close>) or \<open>undefined\<close>.\<close>

datatype gkey = Num nat | Null | Undefined

fun primaryIdOf :: "item \<Rightarrow> gkey" where
  "primaryIdOf (Row c) =
     (if linkPrecedence c = Primary then Num (id_c c)
      else (case linkedId c of None \<Rightarrow> Null | Some k \<Rightarrow> Num k))"
| "primaryIdOf (Rows cs) = Undefined"

text \<open>The elements \<open>c\<close> with \<open>c.linkPrecedence === p\<close>, in order: rows only.\<close>

fun withPrecedence :: "precedence \<Rightarrow> item list \<Rightarrow> contact list" where
  "withPrecedence p [] = []"
| "withPrecedence p (Row c # xs) =
     (if linkPrecedence c = p then c # withPrecedence p xs else withPrecedence p xs)"
| "withPrecedence p (Rows cs # xs) = withPrecedence p xs"

text \<open>A query parameter compared with a column by \<open>=\<close>: \<open>null\<close> and \<open>undefined\<close> are sent
  as NULL, and nothing equals NULL.\<close>

fun sqlEq :: "nat option \<Rightarrow> gkey \<Rightarrow> bool" where
  "sqlEq (Some v) (Num k) = (v = k)"
| "sqlEq v k = False"

section \<open>IdentityService\<close>

text \<open>The \<open>WHERE\<close> clauses of the three queries. A field that is not truthy adds no
  condition; no row with a NULL column satisfies \<open>column = $n\<close>.\<close>

definition whereEmailOrPhone :: "string option \<Rightarrow> string option \<Rightarrow> contact \<Rightarrow> bool" where
  "whereEmailOrPhone mail phone c =
     (((truthy mail \<and> email c = mail) \<or> (truthy phone \<and> phoneNumber c = phone))
      \<and> deletedAt c = None)"

definition whereLinkedTo :: "nat list \<Rightarrow> contact \<Rightarrow> bool" where
  "whereLinkedTo primaryIds c =
     ((id_c c \<in> set primaryIds \<or> (\<exists>k \<in> set primaryIds. linkedId c = Some k))
      \<and> deletedAt c = None)"

definition whereLinkedToId :: "nat \<Rightarrow> contact \<Rightarrow> bool" where
  "whereLinkedToId primaryId c =
     ((id_c c = primaryId \<or> linkedId c = Some primaryId) \<and> deletedAt c = None)"

text \<open>With no condition the query is \<open>WHERE () AND ...\<close>, which the store rejects.\<close>

definition findExistingContacts :: "string option \<Rightarrow> string option \<Rightarrow> contact list io" where
  "findExistingContacts mail phone =
     (if \<not> truthy mail \<and> \<not> truthy phone then andThen command (\<lambda>u. finish (Inl StoreError))
      else selectOrderByCreatedAt (whereEmailOrPhone mail phone))"

definition addPrimaryId :: "nat list \<Rightarrow> contact \<Rightarrow> nat list" where
  "addPrimaryId primaryIds c =
     (if linkPrecedence c = Primary then setAdd primaryIds (id_c c)
      else (case linkedId c of
              None \<Rightarrow> primaryIds
            | Some k \<Rightarrow> if k \<noteq> 0 then setAdd primaryIds k else primaryIds))"

definition collectPrimaryIds :: "contact list \<Rightarrow> nat list" where
  "collectPrimaryIds contacts = foldl addPrimaryId [] contacts"

text \<open>With no primary id the query is \<open>id IN ()\<close>, which the store rejects.\<close>

definition getAllLinkedContacts :: "contact list \<Rightarrow> contact list io" where
  "getAllLinkedContacts contacts =
     (if contacts = [] then finish (Inr [])
      else
        (let primaryIds = collectPrimaryIds contacts
         in if primaryIds = [] then andThen command (\<lambda>u. finish (Inl StoreError))
            else selectOrderByCreatedAt (whereLinkedTo primaryIds)))"

definition needsNewSecondaryContact ::
  "contact list \<Rightarrow> string option \<Rightarrow> string option \<Rightarrow> bool" where
  "needsNewSecondaryContact existingContacts mail phone =
     (\<not> list_ex (\<lambda>c. email c = orNull mail \<and> phoneNumber c = orNull phone) existingContacts)"

text \<open>\<open>.sort((a, b) => a.createdAt.getTime() - b.createdAt.getTime())[0]\<close>: the sort is
  stable, and \<open>[0]\<close> of an empty array is \<open>undefined\<close>.\<close>

definition oldestFirst :: "contact list \<Rightarrow> contact option" where
  "oldestFirst cs = (case sort_key createdAt cs of [] \<Rightarrow> None | c # rest \<Rightarrow> Some c)"

definition findOldestPrimary :: "contact list \<Rightarrow> contact option" where
  "findOldestPrimary contacts = oldestFirst (filter (\<lambda>c. linkPrecedence c = Primary) contacts)"

text \<open>The \<open>Map\<close> from primary id to group, in the order the keys were first set.\<close>

definition addToGroup :: "(gkey \<times> item list) list \<Rightarrow> item \<Rightarrow> (gkey \<times> item list) list" where
  "addToGroup contactGroups c =
     (let primaryId = primaryIdOf c;
          groups = (if primaryId \<in> set (map fst contactGroups) then contactGroups
                    else contactGroups @ [(primaryId, [])])
      in map (\<lambda>(k, g). if k = primaryId then (k, g @ [c]) else (k, g)) groups)"

definition groupByPrimary :: "item list \<Rightarrow> (gkey \<times> item list) list" where
  "groupByPrimary contacts = foldl addToGroup [] contacts"

text \<open>\<open>find\<close> of each group's primary (\<open>undefined\<close> when it has none), then the sort:
  \<open>undefined\<close> elements go last, so \<open>[0]\<close> is the oldest primary found, or \<open>undefined\<close>.\<close>

definition groupPrimaries :: "(gkey \<times> item list) list \<Rightarrow> contact list" where
  "groupPrimaries primaryGroups =
     concat (map (\<lambda>(k, g). take 1 (withPrecedence Primary g)) primaryGroups)"

definition oldestGroupPrimary :: "(gkey \<times> item list) list \<Rightarrow> contact option" where
  "oldestGroupPrimary primaryGroups = oldestFirst (groupPrimaries primaryGroups)"

text \<open>The two updates of \<open>convertPrimaryToSecondary\<close>, between \<open>BEGIN\<close> and \<open>COMMIT\<close>;
  \<open>CURRENT_TIMESTAMP\<close> is the time the transaction began.\<close>

definition demote :: "nat \<Rightarrow> nat \<Rightarrow> contact \<Rightarrow> contact" where
  "demote newPrimaryId t c =
     c\<lparr>linkedId := Some newPrimaryId, linkPrecedence := Secondary, updatedAt := t\<rparr>"

definition repoint :: "nat \<Rightarrow> nat \<Rightarrow> contact \<Rightarrow> contact" where
  "repoint newPrimaryId t c = c\<lparr>linkedId := Some newPrimaryId, updatedAt := t\<rparr>"

definition demoteAndRepoint :: "gkey \<Rightarrow> nat \<Rightarrow> nat \<Rightarrow> unit io" where
  "demoteAndRepoint primaryId newPrimaryId t =
     andThen command (\<lambda>u.
     andThen (updateWhere (\<lambda>c. sqlEq (Some (id_c c)) primaryId) (demote newPrimaryId t)) (\<lambda>u.
     andThen (updateWhere (\<lambda>c. sqlEq (linkedId c) primaryId) (repoint newPrimaryId t)) (\<lambda>u.
     command)))"

text \<open>On an error inside \<open>try\<close> the transaction is rolled back (the rows are those at
  \<open>BEGIN\<close>) and the error is thrown again.\<close>

definition convertPrimaryToSecondary :: "gkey \<Rightarrow> nat \<Rightarrow> unit io" where
  "convertPrimaryToSecondary primaryId newPrimaryId s =
     (case command s of
        (s0, Inl e) \<Rightarrow> (s0, Inl e)
      | (s0, Inr u) \<Rightarrow>
          (case demoteAndRepoint primaryId newPrimaryId (now s0) s0 of
             (s1, Inl e) \<Rightarrow> (fst (command (s1\<lparr>rows := rows s0\<rparr>)), Inl e)
           | (s1, Inr v) \<Rightarrow> (s1, Inr v)))"

definition getAllLinkedContactsById :: "nat \<Rightarrow> contact list io" where
  "getAllLinkedContactsById primaryId = selectOrderByCreatedAt (whereLinkedToId primaryId)"

text \<open>The loop over the groups: every group but the oldest primary's is converted.\<close>

fun convertOthers :: "gkey list \<Rightarrow> nat \<Rightarrow> unit io" where
  "convertOthers [] oldest s = (s, Inr ())"
| "convertOthers (primaryId # rest) oldest s =
     (if primaryId \<noteq> Num oldest
      then (case convertPrimaryToSecondary primaryId oldest s of
              (s', Inl e) \<Rightarrow> (s', Inl e)
            | (s', Inr u) \<Rightarrow> convertOthers rest oldest s')
      else convertOthers rest oldest s)"

text \<open>
  The in-memory updates of lines 150 to 157 change objects of \<open>contacts\<close> only; on that
  path the function returns the rows it fetches again, so they are not modelled.
  \<open>oldestPrimary.id\<close> of \<open>undefined\<close> is a TypeError, raised at the first comparison.
\<close>

definition handleContactChainMerging ::
  "item list \<Rightarrow> string option \<Rightarrow> string option \<Rightarrow> item list io" where
  "handleContactChainMerging contacts mail phone =
     (let contactGroups = groupByPrimary contacts
      in if length contactGroups > 1
         then (case oldestGroupPrimary contactGroups of
                 None \<Rightarrow> finish (Inl TypeError)
               | Some oldestPrimary \<Rightarrow>
                   andThen (convertOthers (map fst contactGroups) (id_c oldestPrimary)) (\<lambda>u.
                   andThen (getAllLinkedContactsById (id_c oldestPrimary)) (\<lambda>fetched.
                   finish (Inr (map Row fetched)))))
         else finish (Inr contacts))"

text \<open>\<open>result.rows[0]\<close>: reading a field of \<open>undefined\<close> later is a TypeError.\<close>

definition createPrimaryContact :: "string option \<Rightarrow> string option \<Rightarrow> contact io" where
  "createPrimaryContact mail phone =
     andThen (insertReturning (orNull phone) (orNull mail) None Primary) (\<lambda>rs.
       finish (case rs of [] \<Rightarrow> Inl TypeError | r # rest \<Rightarrow> Inr r))"

text \<open>\<open>return result.rows\<close>: the array, not its first element.\<close>

definition createSecondaryContact ::
  "string option \<Rightarrow> string option \<Rightarrow> nat option \<Rightarrow> item io" where
  "createSecondaryContact mail phone linked =
     andThen (insertReturning (orNull phone) (orNull mail) linked Secondary) (\<lambda>rs.
       finish (Inr (Rows rs)))"

record identifyRequest =
  email_req :: "string option"
  phoneNumber_req :: "string option"

record identifyResponse =
  primaryContatctId :: nat
  emails :: "string list"
  phoneNumbers :: "string list"
  secondaryContactIds :: "nat list"

definition buildResponse :: "item list \<Rightarrow> error + identifyResponse" where
  "buildResponse contacts =
     (case withPrecedence Primary contacts of
        [] \<Rightarrow> Inl TypeError
      | primary # others \<Rightarrow>
          (let secondaries = withPrecedence Secondary contacts
           in Inr \<lparr>primaryContatctId = id_c primary,
                   emails = newSet (filterBoolean (email primary # map email secondaries)),
                   phoneNumbers =
                     newSet (filterBoolean (phoneNumber primary # map phoneNumber secondaries)),
                   secondaryContactIds = map id_c secondaries\<rparr>))"

text \<open>Lines 40 to 46 of \<open>identify\<close>: the list handed to the merge step.\<close>

definition pushNewSecondary ::
  "contact list \<Rightarrow> string option \<Rightarrow> string option \<Rightarrow> item list io" where
  "pushNewSecondary allLinkedContacts mail phone =
     (if needsNewSecondaryContact allLinkedContacts mail phone
      then (case findOldestPrimary allLinkedContacts of
              None \<Rightarrow> finish (Inl TypeError)
            | Some primaryContact \<Rightarrow>
                andThen (createSecondaryContact mail phone (Some (id_c primaryContact)))
                  (\<lambda>newSecondary. finish (Inr (map Row allLinkedContacts @ [newSecondary]))))
      else finish (Inr (map Row allLinkedContacts)))"

definition identify :: "identifyRequest \<Rightarrow> identifyResponse io" where
  "identify request =
     (let mail = email_req request; phone = phoneNumber_req request
      in if \<not> truthy mail \<and> \<not> truthy phone then finish (Inl ValidationError)
         else
           andThen (findExistingContacts mail phone) (\<lambda>existingContacts.
             if existingContacts = []
             then andThen (createPrimaryContact mail phone) (\<lambda>newContact.
                    finish (buildResponse [Row newContact]))
             else
               andThen (getAllLinkedContacts existingContacts) (\<lambda>allLinkedContacts.
               andThen (pushNewSecondary allLinkedContacts mail phone) (\<lambda>contacts.
               andThen (handleContactChainMerging contacts mail phone) (\<lambda>finalContacts.
               finish (buildResponse finalContacts))))))"

section \<open>Notions used in the statements\<close>

text \<open>The table after the two updates of one conversion, both stamped \<open>t\<close>.\<close>

definition convertedRows :: "gkey \<Rightarrow> nat \<Rightarrow> nat \<Rightarrow> contact list \<Rightarrow> contact list" where
  "convertedRows primaryId newPrimaryId t rs =
     map (\<lambda>c. if sqlEq (linkedId c) primaryId then repoint newPrimaryId t c else c)
       (map (\<lambda>c. if sqlEq (Some (id_c c)) primaryId then demote newPrimaryId t c else c) rs)"

text \<open>One conversion seen at one row, and the loop over the groups seen at one row:
  \<open>ck\<close> is the store's clock and \<open>i\<close> the number of statements sent before the loop.\<close>

definition convertedRow :: "gkey \<Rightarrow> nat \<Rightarrow> nat \<Rightarrow> contact \<Rightarrow> contact" where
  "convertedRow primaryId newPrimaryId t c =
     (let c1 = (if sqlEq (Some (id_c c)) primaryId then demote newPrimaryId t c else c)
      in if sqlEq (linkedId c1) primaryId then repoint newPrimaryId t c1 else c1)"

fun mergedRow :: "gkey list \<Rightarrow> nat \<Rightarrow> (nat \<Rightarrow> nat) \<Rightarrow> nat \<Rightarrow> contact \<Rightarrow> contact" where
  "mergedRow [] oldest ck i c = c"
| "mergedRow (primaryId # rest) oldest ck i c =
     (if primaryId \<noteq> Num oldest
      then mergedRow rest oldest ck (i + 5) (convertedRow primaryId oldest (ck (Suc i)) c)
      else mergedRow rest oldest ck i c)"


text \<open>The matched cluster: what \<open>identify\<close> holds in \<open>allLinkedContacts\<close> once both of
  its first queries have succeeded on a table \<open>rs\<close>.\<close>

definition matchedCluster :: "string option \<Rightarrow> string option \<Rightarrow> contact list \<Rightarrow> contact list" where
  "matchedCluster mail phone rs =
     sort_key createdAt (filter (whereLinkedTo (collectPrimaryIds
        (sort_key createdAt (filter (whereEmailOrPhone mail phone) rs)))) rs)"

text \<open>No contact was created between two stores: the same ids in the same table order,
  and the id sequence has not moved.\<close>

definition sameContacts :: "store \<Rightarrow> store \<Rightarrow> bool" where
  "sameContacts s s' = (map id_c (rows s') = map id_c (rows s) \<and> nextId s' = nextId s)"


text \<open>A table used in the examples: two clusters, the second with one secondary.\<close>

definition exampleRows :: "contact list" where
  "exampleRows =
     [freshRow 1 (Some ''a'') (Some ''1'') None Primary 10,
      freshRow 2 (Some ''b'') (Some ''2'') None Primary 20,
      freshRow 3 (Some ''c'') (Some ''2'') (Some 2) Secondary 30]"

definition exampleStore :: "nat set \<Rightarrow> store" where
  "exampleStore fs = \<lparr>rows = exampleRows, nextId = 4, clock = (\<lambda>n. 100 + n), issued = 0, faults = fs\<rparr>"

section \<open>Validation\<close>

text \<open>
  C7. A request in which neither email nor phoneNumber is supplied is rejected with the
  validation error, and the store is exactly the one before the call: its rows are
  unchanged and no statement has been sent to it.
\<close>

theorem identify_rejects_without_identifier:
  "email_req request = None \<Longrightarrow> phoneNumber_req request = None \<Longrightarrow>
   identify request s = (s, Inl ValidationError)"
  by (simp add: identify_def truthy_def finish_def)

theorem identify_rejects_without_identifier_witness:
  "identify \<lparr>email_req = None, phoneNumber_req = None\<rparr>
     \<lparr>rows = [], nextId = 1, clock = (\<lambda>n. n), issued = 0, faults = {}\<rparr>
   = (\<lparr>rows = [], nextId = 1, clock = (\<lambda>n. n), issued = 0, faults = {}\<rparr>, Inl ValidationError)"
  using identify_rejects_without_identifier
    [of "\<lparr>email_req = None, phoneNumber_req = None\<rparr>"
        "\<lparr>rows = [], nextId = 1, clock = (\<lambda>n. n), issued = 0, faults = {}\<rparr>"]
  by simp

subsection \<open>The empty string\<close>

lemma truthy_simps: "\<not> truthy (Some [])" "\<not> truthy None"
  by (simp_all add: truthy_def)

lemma orNull_simps: "orNull (Some []) = None" "orNull None = None"
  by (simp_all add: orNull_def truthy_def)

lemma where_empty:
  "whereEmailOrPhone (Some []) phone = whereEmailOrPhone None phone"
  "whereEmailOrPhone mail (Some []) = whereEmailOrPhone mail None"
  by (simp_all add: whereEmailOrPhone_def truthy_def fun_eq_iff)

lemma findExisting_empty_mail:
  "findExistingContacts (Some []) phone = findExistingContacts None phone"
  by (simp add: findExistingContacts_def where_empty) (simp add: truthy_def)

lemma findExisting_empty_phone:
  "findExistingContacts mail (Some []) = findExistingContacts mail None"
  by (simp add: findExistingContacts_def where_empty) (simp add: truthy_def)

lemma create_empty:
  "createPrimaryContact (Some []) phone = createPrimaryContact None phone"
  "createPrimaryContact mail (Some []) = createPrimaryContact mail None"
  "createSecondaryContact (Some []) phone l = createSecondaryContact None phone l"
  "createSecondaryContact mail (Some []) l = createSecondaryContact mail None l"
  by (simp_all add: createPrimaryContact_def createSecondaryContact_def orNull_simps)

lemma push_empty:
  "pushNewSecondary cs (Some []) phone = pushNewSecondary cs None phone"
  "pushNewSecondary cs mail (Some []) = pushNewSecondary cs mail None"
  by (simp_all add: pushNewSecondary_def needsNewSecondaryContact_def orNull_simps create_empty
      cong: option.case_cong)

lemma merge_ignores_request:
  "handleContactChainMerging cs mail phone = handleContactChainMerging cs mail' phone'"
  by (simp add: handleContactChainMerging_def)

text \<open>
  C10. An empty string is treated as an absent field. With both fields empty, identify
  throws the validation error and leaves the store as it was. A request with an empty
  email (or phone) behaves exactly as the request without it: same final store, same
  result; the Finder's query is the one without that field, and both inserts store the
  same row (NULL in that column) as without it.
\<close>

theorem empty_string_is_absent:
  "identify \<lparr>email_req = Some [], phoneNumber_req = Some []\<rparr> s = (s, Inl ValidationError)
   \<and> identify \<lparr>email_req = Some [], phoneNumber_req = phone\<rparr> s
       = identify \<lparr>email_req = None, phoneNumber_req = phone\<rparr> s
   \<and> identify \<lparr>email_req = mail, phoneNumber_req = Some []\<rparr> s
       = identify \<lparr>email_req = mail, phoneNumber_req = None\<rparr> s
   \<and> findExistingContacts (Some []) phone s = findExistingContacts None phone s
   \<and> findExistingContacts mail (Some []) s = findExistingContacts mail None s
   \<and> createPrimaryContact (Some []) phone s = createPrimaryContact None phone s
   \<and> createPrimaryContact mail (Some []) s = createPrimaryContact mail None s
   \<and> createSecondaryContact (Some []) phone linked s = createSecondaryContact None phone linked s
   \<and> createSecondaryContact mail (Some []) linked s = createSecondaryContact mail None linked s"
proof -
  have a: "identify \<lparr>email_req = Some [], phoneNumber_req = Some []\<rparr> s
      = (s, Inl ValidationError)"
    by (simp add: identify_def truthy_simps finish_def)
  have b: "identify \<lparr>email_req = Some [], phoneNumber_req = phone\<rparr> s
       = identify \<lparr>email_req = None, phoneNumber_req = phone\<rparr> s"
    by (simp add: identify_def Let_def truthy_simps findExisting_empty_mail create_empty
        push_empty merge_ignores_request [of _ "Some []" phone None phone] cong: if_cong)
  have c: "identify \<lparr>email_req = mail, phoneNumber_req = Some []\<rparr> s
       = identify \<lparr>email_req = mail, phoneNumber_req = None\<rparr> s"
    by (simp add: identify_def Let_def truthy_simps findExisting_empty_phone create_empty
        push_empty merge_ignores_request [of _ mail "Some []" mail None] cong: if_cong)
  show ?thesis
    using a b c by (simp add: findExisting_empty_mail findExisting_empty_phone create_empty)
qed

section \<open>The oldest primary\<close>









section \<open>Statements of the store\<close>

lemma tick_simps [simp]:
  "rows (tick s) = rows s" "nextId (tick s) = nextId s" "clock (tick s) = clock s"
  "issued (tick s) = Suc (issued s)" "faults (tick s) = faults s"
  by (simp_all add: tick_def)

lemma select_ok:
  "issued s \<notin> faults s \<Longrightarrow>
   selectOrderByCreatedAt wh s = (tick s, Inr (sort_key createdAt (filter wh (rows s))))"
  by (simp add: selectOrderByCreatedAt_def failing_def)

lemma insert_ok:
  "issued s \<notin> faults s \<Longrightarrow>
   insertReturning phone mail linked prec s
     = (tick (s\<lparr>rows := rows s @ [freshRow (nextId s) mail phone linked prec (now s)],
               nextId := Suc (nextId s)\<rparr>),
        Inr [freshRow (nextId s) mail phone linked prec (now s)])"
  by (simp add: insertReturning_def failing_def Let_def)

lemma select_cases:
  "selectOrderByCreatedAt wh s = (tick s, Inl StoreError)
   \<or> selectOrderByCreatedAt wh s = (tick s, Inr (sort_key createdAt (filter wh (rows s))))"
  by (simp add: selectOrderByCreatedAt_def)

lemma sameContacts_refl [simp]: "sameContacts s s" "sameContacts s (tick s)"
  by (simp_all add: sameContacts_def)

lemma sameContacts_trans: "sameContacts s s' \<Longrightarrow> sameContacts s' s'' \<Longrightarrow> sameContacts s s''"
  by (simp add: sameContacts_def)

lemma select_sameContacts: "selectOrderByCreatedAt wh s = (s', r) \<Longrightarrow> sameContacts s s'"
  using select_cases [of wh s] by auto

lemma convertedRows_ids: "map id_c (convertedRows k n t rs) = map id_c rs"
  by (simp add: convertedRows_def demote_def repoint_def comp_def if_distrib cong: if_cong)

lemma demoteAndRepoint_result:
  "demoteAndRepoint k n t s = (s', r) \<Longrightarrow>
   nextId s' = nextId s \<and> faults s' = faults s \<and> clock s' = clock s \<and>
   (case r of Inl e \<Rightarrow> e = StoreError
    | Inr u \<Rightarrow> rows s' = convertedRows k n t (rows s) \<and> issued s' = issued s + 4)"
  apply (simp add: demoteAndRepoint_def andThen_def command_def updateWhere_def failing_def convertedRows_def
      split: if_splits prod.splits sum.splits)
  apply (auto simp: tick_def)
  done

lemma command_fst [simp]: "fst (command s) = tick s"
  by (simp add: command_def)

lemma convert_result:
  assumes a: "convertPrimaryToSecondary k n s = (s', r)"
  shows "nextId s' = nextId s \<and> faults s' = faults s \<and> clock s' = clock s \<and>
   (case r of Inl e \<Rightarrow> e = StoreError \<and> rows s' = rows s
    | Inr u \<Rightarrow> rows s' = convertedRows k n (clock s (Suc (issued s))) (rows s)
               \<and> issued s' = issued s + 5)"
proof (cases "failing s")
  case True
  then have "convertPrimaryToSecondary k n s = (tick s, Inl StoreError)"
    by (simp add: convertPrimaryToSecondary_def command_def)
  with a have "s' = tick s" "r = Inl StoreError" by simp_all
  then show ?thesis by simp
next
  case False
  then have c: "command s = (tick s, Inr ())"
    by (simp add: command_def)
  obtain s1 r1 where d: "demoteAndRepoint k n (now (tick s)) (tick s) = (s1, r1)"
    by (cases "demoteAndRepoint k n (now (tick s)) (tick s)")
  from demoteAndRepoint_result [OF d]
  have keep: "nextId s1 = nextId s" "faults s1 = faults s" "clock s1 = clock s"
    and res: "case r1 of Inl e \<Rightarrow> e = StoreError
         | Inr u \<Rightarrow> rows s1 = convertedRows k n (now (tick s)) (rows s)
                    \<and> issued s1 = issued s + 5"
    by (simp_all split: sum.splits)
  show ?thesis
  proof (cases r1)
    case (Inl e)
    with c d have "convertPrimaryToSecondary k n s
        = (tick (s1\<lparr>rows := rows (tick s)\<rparr>), Inl e)"
      by (simp add: convertPrimaryToSecondary_def)
    with a have "s' = tick (s1\<lparr>rows := rows (tick s)\<rparr>)" "r = Inl e" by simp_all
    with keep res Inl show ?thesis by simp
  next
    case (Inr v)
    with c d have "convertPrimaryToSecondary k n s = (s1, Inr v)"
      by (simp add: convertPrimaryToSecondary_def)
    with a have "s' = s1" "r = Inr v" by simp_all
    with keep res Inr show ?thesis by (simp add: now_def)
  qed
qed

lemma convert_sameContacts:
  "convertPrimaryToSecondary k n s = (s', r) \<Longrightarrow> sameContacts s s'"
  using convert_result [of k n s s' r]
  by (cases r) (auto simp add: sameContacts_def convertedRows_ids)

lemma convertOthers_sameContacts:
  "convertOthers ks n s = (s', r) \<Longrightarrow> sameContacts s s'"
proof (induction ks arbitrary: s)
  case Nil
  then show ?case by auto
next
  case (Cons k ks)
  show ?case
  proof (cases "k \<noteq> Num n")
    case False
    with Cons show ?thesis by simp
  next
    case True
    obtain s1 r1 where c: "convertPrimaryToSecondary k n s = (s1, r1)"
      by (cases "convertPrimaryToSecondary k n s")
    note sc = convert_sameContacts [OF c]
    show ?thesis
    proof (cases r1)
      case (Inl e)
      with True c Cons.prems sc show ?thesis by auto
    next
      case (Inr u)
      with True c Cons.prems have "convertOthers ks n s1 = (s', r)" by simp
      from Cons.IH [OF this] sc show ?thesis by (rule sameContacts_trans [rotated])
    qed
  qed
qed

lemma merging_sameContacts:
  "handleContactChainMerging cs mail phone s = (s', r) \<Longrightarrow> sameContacts s s'"
proof -
  assume a: "handleContactChainMerging cs mail phone s = (s', r)"
  show ?thesis
  proof (cases "length (groupByPrimary cs) > 1")
    case False
    with a show ?thesis by (simp add: handleContactChainMerging_def finish_def)
  next
    case True
    show ?thesis
    proof (cases "oldestGroupPrimary (groupByPrimary cs)")
      case None
      with True a show ?thesis by (simp add: handleContactChainMerging_def finish_def)
    next
      case (Some oldest)
      obtain s1 r1 where c: "convertOthers (map fst (groupByPrimary cs)) (id_c oldest) s = (s1, r1)"
        by (cases "convertOthers (map fst (groupByPrimary cs)) (id_c oldest) s")
      note sc = convertOthers_sameContacts [OF c]
      show ?thesis
      proof (cases r1)
        case (Inl e)
        with True Some a c sc show ?thesis
          by (simp add: handleContactChainMerging_def andThen_def)
      next
        case (Inr u)
        obtain s2 r2 where f: "getAllLinkedContactsById (id_c oldest) s1 = (s2, r2)"
          by (cases "getAllLinkedContactsById (id_c oldest) s1")
        then have "sameContacts s1 s2"
          by (simp add: getAllLinkedContactsById_def select_sameContacts)
        with sc have "sameContacts s s2" by (rule sameContacts_trans)
        with True Some a c Inr f show ?thesis
          by (cases r2) (auto simp add: handleContactChainMerging_def andThen_def finish_def)
      qed
    qed
  qed
qed

section \<open>The new-secondary check\<close>

lemma needsNew_iff:
  "needsNewSecondaryContact cs mail phone
   \<longleftrightarrow> \<not> (\<exists>c \<in> set cs. email c = orNull mail \<and> phoneNumber c = orNull phone)"
  by (simp add: needsNewSecondaryContact_def list_ex_iff)

lemma findExisting_cases:
  "truthy mail \<or> truthy phone \<Longrightarrow>
   findExistingContacts mail phone s = (tick s, Inl StoreError)
   \<or> findExistingContacts mail phone s
      = (tick s, Inr (sort_key createdAt (filter (whereEmailOrPhone mail phone) (rows s))))"
  using select_cases [of "whereEmailOrPhone mail phone" s]
  by (auto simp add: findExistingContacts_def)

lemma getAllLinked_cases:
  "cs \<noteq> [] \<Longrightarrow>
   (\<exists>s'. getAllLinkedContacts cs s = (s', Inl StoreError) \<and> sameContacts s s')
   \<or> getAllLinkedContacts cs s
      = (tick s, Inr (sort_key createdAt (filter (whereLinkedTo (collectPrimaryIds cs)) (rows s))))"
  using select_cases [of "whereLinkedTo (collectPrimaryIds cs)" s]
  by (auto simp add: getAllLinkedContacts_def Let_def andThen_def command_def finish_def)

text \<open>
  C3. The check signals a new secondary exactly when no contact of the list carries the
  pair (email or null, phone or null) in one row, whatever rows carry each field alone.
  And when a member of the matched cluster carries the exact pair of the request,
  identify creates no contact, whether or not the store fails on the way: the table
  holds the same ids and the id sequence has not moved.
\<close>

theorem known_pair_creates_no_contact:
  "(needsNewSecondaryContact cluster mail phone
      \<longleftrightarrow> \<not> (\<exists>c \<in> set cluster. email c = orNull mail \<and> phoneNumber c = orNull phone))
   \<and> ((\<exists>c \<in> set (matchedCluster mail phone (rows s)).
               email c = orNull mail \<and> phoneNumber c = orNull phone)
      \<longrightarrow> sameContacts s (fst (identify \<lparr>email_req = mail, phoneNumber_req = phone\<rparr> s)))"
proof (intro conjI impI)
  show "needsNewSecondaryContact cluster mail phone
      \<longleftrightarrow> \<not> (\<exists>c \<in> set cluster. email c = orNull mail \<and> phoneNumber c = orNull phone)"
    by (rule needsNew_iff)
next
  assume a: "\<exists>c \<in> set (matchedCluster mail phone (rows s)).
               email c = orNull mail \<and> phoneNumber c = orNull phone"
  define existing where "existing = sort_key createdAt (filter (whereEmailOrPhone mail phone) (rows s))"
  have ne: "existing \<noteq> []"
  proof
    assume "existing = []"
    then have "matchedCluster mail phone (rows s) = []"
      by (simp add: matchedCluster_def existing_def [symmetric] collectPrimaryIds_def
          whereLinkedTo_def)
    with a show False by simp
  qed
  have t: "truthy mail \<or> truthy phone"
  proof -
    from ne obtain c where "c \<in> set existing" by (cases existing) auto
    then have "whereEmailOrPhone mail phone c" by (simp add: existing_def)
    then show ?thesis by (auto simp add: whereEmailOrPhone_def)
  qed
  have nn: "\<not> needsNewSecondaryContact (matchedCluster mail phone (rows s)) mail phone"
    using a by (simp add: needsNew_iff)
  let ?req = "\<lparr>email_req = mail, phoneNumber_req = phone\<rparr>"
  from findExisting_cases [OF t, of s] show "sameContacts s (fst (identify ?req s))"
  proof
    assume "findExistingContacts mail phone s = (tick s, Inl StoreError)"
    then show ?thesis using t by (auto simp add: identify_def Let_def andThen_def)
  next
    assume f: "findExistingContacts mail phone s = (tick s, Inr (sort_key createdAt (filter (whereEmailOrPhone mail phone) (rows s))))"
    from getAllLinked_cases [OF ne, of "tick s"] show ?thesis
    proof (elim disjE exE conjE)
      fix s' assume "getAllLinkedContacts existing (tick s) = (s', Inl StoreError)" "sameContacts (tick s) s'"
      then show ?thesis using t f ne
        by (auto simp add: identify_def Let_def andThen_def existing_def sameContacts_def)
    next
      assume g: "getAllLinkedContacts existing (tick s) = (tick (tick s), Inr (sort_key createdAt (filter (whereLinkedTo (collectPrimaryIds existing)) (rows (tick s)))))"
      have cl: "matchedCluster mail phone (rows s)
          = sort_key createdAt (filter (whereLinkedTo (collectPrimaryIds existing)) (rows s))"
        by (simp add: matchedCluster_def existing_def)
      obtain s3 r3 where m: "handleContactChainMerging (map Row (matchedCluster mail phone (rows s))) mail phone (tick (tick s)) = (s3, r3)"
        by (cases "handleContactChainMerging (map Row (matchedCluster mail phone (rows s))) mail phone (tick (tick s))")
      from merging_sameContacts [OF m] have "sameContacts s s3" by (simp add: sameContacts_def)
      then show ?thesis using t f ne g nn [unfolded cl] m [unfolded cl]
        by (cases r3) (auto simp add: identify_def Let_def andThen_def existing_def [symmetric] pushNewSecondary_def finish_def)
    qed
  qed
qed

theorem known_pair_creates_no_contact_witness:
  "sameContacts (exampleStore {})
     (fst (identify \<lparr>email_req = Some ''b'', phoneNumber_req = Some ''2''\<rparr> (exampleStore {})))"
proof -
  have "\<exists>c \<in> set (matchedCluster (Some ''b'') (Some ''2'') (rows (exampleStore {}))).
       email c = orNull (Some ''b'') \<and> phoneNumber c = orNull (Some ''2'')"
    by code_simp
  with known_pair_creates_no_contact [of "[]" "Some ''b''" "Some ''2''" "exampleStore {}"]
  show ?thesis by blast
qed

section \<open>A request that matches nothing\<close>

lemma newSet_short: "newSet (filterBoolean [v]) = filterBoolean [v]"
  by (cases v) (simp_all add: newSet_def setAdd_def)

text \<open>
  C4. When the request carries an identifier and no row that is not deleted matches its
  email or phone, and the store runs the two statements, identify appends exactly one
  row: a primary with \<open>linkedId\<close> null, the id the store assigns, and the request's
  fields (null for a field that is not truthy). The response names that id as primary
  and has no secondary ids.
\<close>

theorem new_primary_when_nothing_matches:
  assumes "truthy mail \<or> truthy phone"
    and "\<forall>c \<in> set (rows s). \<not> whereEmailOrPhone mail phone c"
    and "issued s \<notin> faults s" and "Suc (issued s) \<notin> faults s"
  shows "identify \<lparr>email_req = mail, phoneNumber_req = phone\<rparr> s
     = (s\<lparr>rows := rows s @ [freshRow (nextId s) (orNull mail) (orNull phone) None Primary
                                (clock s (Suc (issued s)))],
          nextId := Suc (nextId s), issued := issued s + 2\<rparr>,
        Inr \<lparr>primaryContatctId = nextId s, emails = filterBoolean [orNull mail],
             phoneNumbers = filterBoolean [orNull phone], secondaryContactIds = []\<rparr>)"
proof -
  have none: "filter (whereEmailOrPhone mail phone) (rows s) = []"
    using assms(2) by (simp add: filter_empty_conv)
  have find: "findExistingContacts mail phone s = (tick s, Inr [])"
    using assms(1,3) by (auto simp add: findExistingContacts_def select_ok none)
  have ins: "createPrimaryContact mail phone (tick s)
     = (tick (tick s\<lparr>rows := rows s @ [freshRow (nextId s) (orNull mail) (orNull phone) None
                 Primary (clock s (Suc (issued s)))], nextId := Suc (nextId s)\<rparr>),
        Inr (freshRow (nextId s) (orNull mail) (orNull phone) None Primary
               (clock s (Suc (issued s)))))"
    using assms(4)
    by (simp add: createPrimaryContact_def andThen_def insert_ok finish_def now_def)
  have resp: "buildResponse [Row (freshRow (nextId s) (orNull mail) (orNull phone) None Primary
               (clock s (Suc (issued s))))]
     = Inr \<lparr>primaryContatctId = nextId s, emails = filterBoolean [orNull mail],
             phoneNumbers = filterBoolean [orNull phone], secondaryContactIds = []\<rparr>"
    by (simp add: buildResponse_def freshRow_def newSet_short)
  have "identify \<lparr>email_req = mail, phoneNumber_req = phone\<rparr> s
     = (tick (tick s\<lparr>rows := rows s @ [freshRow (nextId s) (orNull mail) (orNull phone) None
                 Primary (clock s (Suc (issued s)))], nextId := Suc (nextId s)\<rparr>),
        Inr \<lparr>primaryContatctId = nextId s, emails = filterBoolean [orNull mail],
             phoneNumbers = filterBoolean [orNull phone], secondaryContactIds = []\<rparr>)"
    using assms(1)
    by (auto simp add: identify_def Let_def andThen_def find ins finish_def resp)
  then show ?thesis
    by (simp add: tick_def)
qed

theorem new_primary_when_nothing_matches_witness:
  "identify \<lparr>email_req = Some ''z'', phoneNumber_req = None\<rparr> (exampleStore {})
   = (\<lparr>rows = exampleRows @ [freshRow 4 (Some ''z'') None None Primary 101], nextId = 5,
       clock = (\<lambda>n. 100 + n), issued = 2, faults = {}\<rparr>,
      Inr \<lparr>primaryContatctId = 4, emails = [''z''], phoneNumbers = [],
           secondaryContactIds = []\<rparr>)"
proof -
  have 1: "truthy (Some ''z'') \<or> truthy None" by (simp add: truthy_def)
  have 2: "\<forall>c \<in> set (rows (exampleStore {})). \<not> whereEmailOrPhone (Some ''z'') None c"
    by code_simp
  have 3: "issued (exampleStore {}) \<notin> faults (exampleStore {})"
    "Suc (issued (exampleStore {})) \<notin> faults (exampleStore {})"
    by (simp_all add: exampleStore_def)
  from new_primary_when_nothing_matches [OF 1 2 3]
  show ?thesis by (simp add: exampleStore_def orNull_def truthy_def)
qed

section \<open>The response\<close>




















section \<open>Transactions\<close>




section \<open>The rows after a merge\<close>


lemma convertedRow_fields [simp]:
  "id_c (convertedRow k n t c) = id_c c"
  "email (convertedRow k n t c) = email c"
  "phoneNumber (convertedRow k n t c) = phoneNumber c"
  "createdAt (convertedRow k n t c) = createdAt c"
  "deletedAt (convertedRow k n t c) = deletedAt c"
  by (simp_all add: convertedRow_def demote_def repoint_def Let_def)

lemma mergedRow_fields [simp]:
  "id_c (mergedRow ks n ck i c) = id_c c"
  "email (mergedRow ks n ck i c) = email c"
  "phoneNumber (mergedRow ks n ck i c) = phoneNumber c"
  "createdAt (mergedRow ks n ck i c) = createdAt c"
  "deletedAt (mergedRow ks n ck i c) = deletedAt c"
  by (induction ks arbitrary: i c; simp)+


lemma linkedId_demote [simp]: "linkedId (demote n t c) = Some n"
  "linkPrecedence (demote n t c) = Secondary"
  by (simp_all add: demote_def)

lemma repoint_simps [simp]: "linkedId (repoint n t c) = Some n"
  "linkPrecedence (repoint n t c) = linkPrecedence c" "id_c (repoint n t c) = id_c c"
  by (simp_all add: repoint_def)







lemma convertedRow_no_key [simp]:
  "convertedRow Undefined n t c = c" "convertedRow Null n t c = c"
  by (simp_all add: convertedRow_def)

section \<open>The groups\<close>










section \<open>Runs without a store error\<close>










section \<open>A known email with a new phone\<close>











section \<open>A request that bridges two clusters\<close>








section \<open>Submitting a request again\<close>









end
